theory Spec2Isabelle
  imports Main
begin

section \<open>The in-memory store of the technology radar\<close>

text \<open>
  The store is the class whose methods \<open>initializeData\<close>, \<open>getTechnology\<close>,
  \<open>searchTechnologies\<close>, \<open>createTechnology\<close>, \<open>updateTechnology\<close> and the
  quadrant and ring methods are given in the source. Every method is declared \<open>async\<close>
  but contains no \<open>await\<close>: its body runs to completion when it is called, so a method
  is modelled as a function from the store to a result and the store afterwards.

  Conventions of the embedding:
  \<^item> a JavaScript number used as an id, a counter or an index is an \<open>int\<close>; the counters
    only ever hold small integers, where \<open>n++\<close> is exact;
  \<^item> a JavaScript string is a \<open>string\<close>, each \<open>char\<close> standing for the code unit of
    the same number (U+0000 to U+00FF);
  \<^item> a value of type \<open>T | null\<close> is a \<open>T option\<close> with \<open>None\<close> for \<open>null\<close>;
  \<^item> an optional property \<open>p?: T | null\<close> of an input object is a \<open>T optional\<close>;
  \<^item> a property of a \<open>Partial<...>\<close> object is an option: \<open>None\<close> when the object has
    no such property, \<open>Some v\<close> when it has it with the value \<open>v\<close>.
\<close>

subsection \<open>Optional properties and the \<open>||\<close> defaults\<close>

datatype 'a optional = Absent | Null | Value 'a

text \<open>\<open>x || null\<close> on a string property: \<open>undefined\<close>, \<open>null\<close> and \<open>""\<close> are falsy.\<close>

fun orNull :: "string optional \<Rightarrow> string option" where
  "orNull Absent = None"
| "orNull Null = None"
| "orNull (Value v) = (if v = [] then None else Some v)"

text \<open>\<open>x || []\<close> on an array property: every array, also the empty one, is truthy.\<close>

fun orEmptyArray :: "'a list optional \<Rightarrow> 'a list option" where
  "orEmptyArray Absent = Some []"
| "orEmptyArray Null = Some []"
| "orEmptyArray (Value v) = Some v"

text \<open>One property of \<open>{...existing, ...update}\<close>: the update's value when it has one.\<close>

fun spread :: "'a \<Rightarrow> 'a option \<Rightarrow> 'a" where
  "spread old None = old"
| "spread old (Some v) = v"

subsection \<open>\<open>Map\<close>: keyed entries in insertion order\<close>

fun Map_get :: "'k \<Rightarrow> ('k \<times> 'v) list \<Rightarrow> 'v option" where
  "Map_get k [] = None"
| "Map_get k ((k', v) # m) = (if k' = k then Some v else Map_get k m)"

text \<open>\<open>set\<close> keeps the place of a key that is there and appends a new key.\<close>

fun Map_set :: "'k \<Rightarrow> 'v \<Rightarrow> ('k \<times> 'v) list \<Rightarrow> ('k \<times> 'v) list" where
  "Map_set k v [] = [(k, v)]"
| "Map_set k v ((k', v') # m) = (if k' = k then (k, v) # m else (k', v') # Map_set k v m)"

definition Map_values :: "('k \<times> 'v) list \<Rightarrow> 'v list" where
  "Map_values m = map snd m"

definition Map_keys :: "('k \<times> 'v) list \<Rightarrow> 'k list" where
  "Map_keys m = map fst m"

subsection \<open>Strings\<close>

text \<open>
  \<open>toLowerCase\<close> on the code units U+0000 to U+00FF: the letters A to Z and the
  letters U+00C0 to U+00DE other than the multiplication sign U+00D7 move up by 32,
  to the code unit that differs from theirs in the bit of value 32 alone.
\<close>

definition toLowerCaseUnit :: "char \<Rightarrow> char" where
  "toLowerCaseUnit c =
     (let n = (of_char c :: nat)
      in if (65 \<le> n \<and> n \<le> 90) \<or> (192 \<le> n \<and> n \<le> 222 \<and> n \<noteq> 215)
         then (case c of Char b0 b1 b2 b3 b4 b5 b6 b7 \<Rightarrow> Char b0 b1 b2 b3 b4 True b6 b7)
         else c)"

definition toLowerCase :: "string \<Rightarrow> string" where
  "toLowerCase s = map toLowerCaseUnit s"

text \<open>
  The code units \<open>trim\<close> removes, in the same range: tab, line feed, vertical tab, form
  feed, carriage return, space and no-break space.
\<close>

definition isWhiteSpace :: "char \<Rightarrow> bool" where
  "isWhiteSpace c = ((of_char c :: nat) \<in> {9, 10, 11, 12, 13, 32, 160})"

definition trim :: "string \<Rightarrow> string" where
  "trim s = rev (dropWhile isWhiteSpace (rev (dropWhile isWhiteSpace s)))"

fun startsWith :: "string \<Rightarrow> string \<Rightarrow> bool" where
  "startsWith s [] = True"
| "startsWith [] (c # t) = False"
| "startsWith (d # s) (c # t) = (d = c \<and> startsWith s t)"

text \<open>\<open>s.includes(t)\<close>: \<open>t\<close> starts at some position of \<open>s\<close>.\<close>

fun String_includes :: "string \<Rightarrow> string \<Rightarrow> bool" where
  "String_includes [] t = (t = [])"
| "String_includes (d # s) t = (startsWith (d # s) t \<or> String_includes s t)"

subsection \<open>Entities\<close>

text \<open>
  The types \<open>Technology\<close>, \<open>InsertTechnology\<close>, \<open>Quadrant\<close>, \<open>InsertQuadrant\<close>,
  \<open>Ring\<close> and \<open>InsertRing\<close> come from the shared schema, which the methods import.
  Their fields are read off the methods and the seed: \<open>createTechnology\<close> supplies
  \<open>id\<close>, \<open>website\<close>, \<open>tags\<close> and \<open>custom_properties\<close>, so these are not required of the
  input; \<open>searchTechnologies\<close> reads \<open>name\<close> and \<open>description\<close> as strings and guards
  \<open>tags\<close> against null. \<open>technologyUpdate\<close> stands for \<open>Partial<InsertTechnology>\<close>,
  which has no \<open>id\<close>; a property present with the value \<open>undefined\<close> is not
  represented. Field names carry the entity's prefix.
\<close>

record technology =
  tech_id :: int
  tech_name :: string
  tech_description :: string
  tech_quadrant :: int
  tech_ring :: int
  tech_website :: "string option"
  tech_tags :: "string list option"
  tech_custom_properties :: "string option"

record insertTechnology =
  ins_tech_name :: string
  ins_tech_description :: string
  ins_tech_quadrant :: int
  ins_tech_ring :: int
  ins_tech_website :: "string optional"
  ins_tech_tags :: "string list optional"
  ins_tech_custom_properties :: "string optional"

record technologyUpdate =
  upd_tech_name :: "string option"
  upd_tech_description :: "string option"
  upd_tech_quadrant :: "int option"
  upd_tech_ring :: "int option"
  upd_tech_website :: "string option option"
  upd_tech_tags :: "string list option option"
  upd_tech_custom_properties :: "string option option"

record quadrant =
  quad_id :: int
  quad_name :: string
  quad_description :: string
  quad_color :: "string option"

record insertQuadrant =
  ins_quad_name :: string
  ins_quad_description :: string
  ins_quad_color :: "string optional"

record quadrantUpdate =
  upd_quad_name :: "string option"
  upd_quad_description :: "string option"
  upd_quad_color :: "string option option"

record ring =
  ring_id :: int
  ring_name :: string
  ring_description :: string
  ring_color :: "string option"

record insertRing =
  ins_ring_name :: string
  ins_ring_description :: string
  ins_ring_color :: "string optional"

record ringUpdate =
  upd_ring_name :: "string option"
  upd_ring_description :: "string option"
  upd_ring_color :: "string option option"

text \<open>
  Modelled from the spec: the project and link types, also of the shared schema. Their
  fields are the spec's and those of the objects that \<open>initializeData\<close> passes to
  \<open>createProject\<close> and \<open>linkTechnologyToProject\<close>.
\<close>

record project =
  proj_id :: int
  proj_name :: string
  proj_description :: string
  proj_status :: string
  proj_website :: "string option"
  proj_repository :: "string option"
  proj_image :: "string option"

record insertProject =
  ins_proj_name :: string
  ins_proj_description :: string
  ins_proj_status :: string
  ins_proj_website :: "string optional"
  ins_proj_repository :: "string optional"
  ins_proj_image :: "string optional"

record projectUpdate =
  upd_proj_name :: "string option"
  upd_proj_description :: "string option"
  upd_proj_status :: "string option"
  upd_proj_website :: "string option option"
  upd_proj_repository :: "string option option"
  upd_proj_image :: "string option option"

record technologyProject =
  link_id :: int
  link_technology_id :: int
  link_project_id :: int
  link_notes :: "string option"

record insertTechnologyProject =
  ins_link_technology_id :: int
  ins_link_project_id :: int
  ins_link_notes :: "string optional"

record technologyProjectUpdate =
  upd_link_technology_id :: "int option"
  upd_link_project_id :: "int option"
  upd_link_notes :: "string option option"

subsection \<open>The store\<close>

record storage =
  technologies :: "(int \<times> technology) list"
  quadrants :: "(int \<times> quadrant) list"
  rings :: "(int \<times> ring) list"
  projects :: "(int \<times> project) list"
  technologyProjects :: "(int \<times> technologyProject) list"
  techCurrentId :: int
  quadrantCurrentId :: int
  ringCurrentId :: int
  projectCurrentId :: int
  techProjectCurrentId :: int

subsection \<open>Technology methods\<close>

definition getTechnology :: "int \<Rightarrow> storage \<Rightarrow> technology option" where
  "getTechnology i s = Map_get i (technologies s)"

definition getTechnologies :: "storage \<Rightarrow> technology list" where
  "getTechnologies s = Map_values (technologies s)"

definition searchTechnologies :: "string \<Rightarrow> storage \<Rightarrow> technology list" where
  "searchTechnologies query s =
     (if query = [] \<or> trim query = [] then getTechnologies s
      else
        let lowerQuery = toLowerCase query
        in filter (\<lambda>tech.
             let nameMatch = String_includes (toLowerCase (tech_name tech)) lowerQuery;
                 descMatch = String_includes (toLowerCase (tech_description tech)) lowerQuery;
                 tagsMatch = (case tech_tags tech of
                                Some tags \<Rightarrow> list_ex (\<lambda>tag. String_includes (toLowerCase tag) lowerQuery) tags
                              | None \<Rightarrow> False)
             in nameMatch \<or> descMatch \<or> tagsMatch)
           (Map_values (technologies s)))"

definition createTechnology :: "insertTechnology \<Rightarrow> storage \<Rightarrow> technology \<times> storage" where
  "createTechnology insertTechnology s =
     (let i = techCurrentId s;
          s1 = s\<lparr>techCurrentId := techCurrentId s + 1\<rparr>;
          technology = \<lparr>tech_id = i,
                        tech_name = ins_tech_name insertTechnology,
                        tech_description = ins_tech_description insertTechnology,
                        tech_quadrant = ins_tech_quadrant insertTechnology,
                        tech_ring = ins_tech_ring insertTechnology,
                        tech_website = orNull (ins_tech_website insertTechnology),
                        tech_tags = orEmptyArray (ins_tech_tags insertTechnology),
                        tech_custom_properties = orNull (ins_tech_custom_properties insertTechnology)\<rparr>
      in (technology, s1\<lparr>technologies := Map_set i technology (technologies s1)\<rparr>))"

definition updateTechnology ::
    "int \<Rightarrow> technologyUpdate \<Rightarrow> storage \<Rightarrow> technology option \<times> storage" where
  "updateTechnology i technologyUpdate s =
     (case Map_get i (technologies s) of
        None \<Rightarrow> (None, s)
      | Some existingTech \<Rightarrow>
          let updatedTech =
                \<lparr>tech_id = tech_id existingTech,
                 tech_name = spread (tech_name existingTech) (upd_tech_name technologyUpdate),
                 tech_description =
                   spread (tech_description existingTech) (upd_tech_description technologyUpdate),
                 tech_quadrant = spread (tech_quadrant existingTech) (upd_tech_quadrant technologyUpdate),
                 tech_ring = spread (tech_ring existingTech) (upd_tech_ring technologyUpdate),
                 tech_website = spread (tech_website existingTech) (upd_tech_website technologyUpdate),
                 tech_tags = spread (tech_tags existingTech) (upd_tech_tags technologyUpdate),
                 tech_custom_properties =
                   spread (tech_custom_properties existingTech)
                     (upd_tech_custom_properties technologyUpdate)\<rparr>
          in (Some updatedTech, s\<lparr>technologies := Map_set i updatedTech (technologies s)\<rparr>))"

subsection \<open>Quadrant methods\<close>

definition getQuadrant :: "int \<Rightarrow> storage \<Rightarrow> quadrant option" where
  "getQuadrant i s = Map_get i (quadrants s)"

definition getQuadrants :: "storage \<Rightarrow> quadrant list" where
  "getQuadrants s = Map_values (quadrants s)"

definition createQuadrant :: "insertQuadrant \<Rightarrow> storage \<Rightarrow> quadrant \<times> storage" where
  "createQuadrant insertQuadrant s =
     (let i = quadrantCurrentId s;
          s1 = s\<lparr>quadrantCurrentId := quadrantCurrentId s + 1\<rparr>;
          quadrant = \<lparr>quad_id = i,
                      quad_name = ins_quad_name insertQuadrant,
                      quad_description = ins_quad_description insertQuadrant,
                      quad_color = orNull (ins_quad_color insertQuadrant)\<rparr>
      in (quadrant, s1\<lparr>quadrants := Map_set i quadrant (quadrants s1)\<rparr>))"

definition updateQuadrant ::
    "int \<Rightarrow> quadrantUpdate \<Rightarrow> storage \<Rightarrow> quadrant option \<times> storage" where
  "updateQuadrant i quadrantUpdate s =
     (case Map_get i (quadrants s) of
        None \<Rightarrow> (None, s)
      | Some existingQuadrant \<Rightarrow>
          let updatedQuadrant =
                \<lparr>quad_id = quad_id existingQuadrant,
                 quad_name = spread (quad_name existingQuadrant) (upd_quad_name quadrantUpdate),
                 quad_description =
                   spread (quad_description existingQuadrant) (upd_quad_description quadrantUpdate),
                 quad_color = spread (quad_color existingQuadrant) (upd_quad_color quadrantUpdate)\<rparr>
          in (Some updatedQuadrant, s\<lparr>quadrants := Map_set i updatedQuadrant (quadrants s)\<rparr>))"

subsection \<open>Ring methods\<close>

definition getRing :: "int \<Rightarrow> storage \<Rightarrow> ring option" where
  "getRing i s = Map_get i (rings s)"

definition getRings :: "storage \<Rightarrow> ring list" where
  "getRings s = Map_values (rings s)"

definition createRing :: "insertRing \<Rightarrow> storage \<Rightarrow> ring \<times> storage" where
  "createRing insertRing s =
     (let i = ringCurrentId s;
          s1 = s\<lparr>ringCurrentId := ringCurrentId s + 1\<rparr>;
          ring = \<lparr>ring_id = i,
                  ring_name = ins_ring_name insertRing,
                  ring_description = ins_ring_description insertRing,
                  ring_color = orNull (ins_ring_color insertRing)\<rparr>
      in (ring, s1\<lparr>rings := Map_set i ring (rings s1)\<rparr>))"

definition updateRing :: "int \<Rightarrow> ringUpdate \<Rightarrow> storage \<Rightarrow> ring option \<times> storage" where
  "updateRing i ringUpdate s =
     (case Map_get i (rings s) of
        None \<Rightarrow> (None, s)
      | Some existingRing \<Rightarrow>
          let updatedRing =
                \<lparr>ring_id = ring_id existingRing,
                 ring_name = spread (ring_name existingRing) (upd_ring_name ringUpdate),
                 ring_description =
                   spread (ring_description existingRing) (upd_ring_description ringUpdate),
                 ring_color = spread (ring_color existingRing) (upd_ring_color ringUpdate)\<rparr>
          in (Some updatedRing, s\<lparr>rings := Map_set i updatedRing (rings s)\<rparr>))"

subsection \<open>Project and link methods\<close>

text \<open>
  Modelled from the spec: the bodies of \<open>getProject\<close>, \<open>getProjects\<close>,
  \<open>createProject\<close>, \<open>updateProject\<close>, \<open>linkTechnologyToProject\<close> and of the get, list
  and update operations on links are outside the source at hand (only the signature
  of \<open>getProject\<close> and the calls in \<open>initializeData\<close> are). The spec gives the five
  collections one pattern: \<open>get\<close> returns the entity or not-found, \<open>list\<close> the entities
  in insertion order, \<open>create\<close> assigns the collection's next id, fills unset optional
  fields with null, stores and returns the entity, \<open>update\<close> merges the provided fields
  onto the existing entity or returns not-found.
\<close>

text \<open>Modelled from the spec: an unset optional field of a created project or link becomes null.\<close>

fun unsetToNull :: "'a optional \<Rightarrow> 'a option" where
  "unsetToNull Absent = None"
| "unsetToNull Null = None"
| "unsetToNull (Value v) = Some v"

text \<open>Modelled from the spec: \<open>get\<close> on projects (the body of \<open>getProject\<close> is missing).\<close>

definition getProject :: "int \<Rightarrow> storage \<Rightarrow> project option" where
  "getProject i s = Map_get i (projects s)"

text \<open>Modelled from the spec: \<open>list\<close> on projects (\<open>getProjects\<close> is missing).\<close>

definition getProjects :: "storage \<Rightarrow> project list" where
  "getProjects s = Map_values (projects s)"

text \<open>Modelled from the spec: \<open>create\<close> on projects (\<open>createProject\<close> is missing).\<close>

definition createProject :: "insertProject \<Rightarrow> storage \<Rightarrow> project \<times> storage" where
  "createProject insertProject s =
     (let i = projectCurrentId s;
          s1 = s\<lparr>projectCurrentId := projectCurrentId s + 1\<rparr>;
          project = \<lparr>proj_id = i,
                     proj_name = ins_proj_name insertProject,
                     proj_description = ins_proj_description insertProject,
                     proj_status = ins_proj_status insertProject,
                     proj_website = unsetToNull (ins_proj_website insertProject),
                     proj_repository = unsetToNull (ins_proj_repository insertProject),
                     proj_image = unsetToNull (ins_proj_image insertProject)\<rparr>
      in (project, s1\<lparr>projects := Map_set i project (projects s1)\<rparr>))"

text \<open>Modelled from the spec: \<open>update\<close> on projects (\<open>updateProject\<close> is missing).\<close>

definition updateProject :: "int \<Rightarrow> projectUpdate \<Rightarrow> storage \<Rightarrow> project option \<times> storage" where
  "updateProject i projectUpdate s =
     (case Map_get i (projects s) of
        None \<Rightarrow> (None, s)
      | Some existingProject \<Rightarrow>
          let updatedProject =
                \<lparr>proj_id = proj_id existingProject,
                 proj_name = spread (proj_name existingProject) (upd_proj_name projectUpdate),
                 proj_description =
                   spread (proj_description existingProject) (upd_proj_description projectUpdate),
                 proj_status = spread (proj_status existingProject) (upd_proj_status projectUpdate),
                 proj_website = spread (proj_website existingProject) (upd_proj_website projectUpdate),
                 proj_repository =
                   spread (proj_repository existingProject) (upd_proj_repository projectUpdate),
                 proj_image = spread (proj_image existingProject) (upd_proj_image projectUpdate)\<rparr>
          in (Some updatedProject, s\<lparr>projects := Map_set i updatedProject (projects s)\<rparr>))"

text \<open>Modelled from the spec: \<open>get\<close> on links (missing).\<close>

definition getTechnologyProject :: "int \<Rightarrow> storage \<Rightarrow> technologyProject option" where
  "getTechnologyProject i s = Map_get i (technologyProjects s)"

text \<open>Modelled from the spec: \<open>list\<close> on links (missing).\<close>

definition getTechnologyProjects :: "storage \<Rightarrow> technologyProject list" where
  "getTechnologyProjects s = Map_values (technologyProjects s)"

text \<open>Modelled from the spec: \<open>create\<close> on links (\<open>linkTechnologyToProject\<close> is missing).\<close>

definition linkTechnologyToProject ::
    "insertTechnologyProject \<Rightarrow> storage \<Rightarrow> technologyProject \<times> storage" where
  "linkTechnologyToProject insertTechProject s =
     (let i = techProjectCurrentId s;
          s1 = s\<lparr>techProjectCurrentId := techProjectCurrentId s + 1\<rparr>;
          techProject = \<lparr>link_id = i,
                         link_technology_id = ins_link_technology_id insertTechProject,
                         link_project_id = ins_link_project_id insertTechProject,
                         link_notes = unsetToNull (ins_link_notes insertTechProject)\<rparr>
      in (techProject, s1\<lparr>technologyProjects := Map_set i techProject (technologyProjects s1)\<rparr>))"

text \<open>Modelled from the spec: \<open>update\<close> on links (missing).\<close>

definition updateTechnologyProject ::
    "int \<Rightarrow> technologyProjectUpdate \<Rightarrow> storage \<Rightarrow> technologyProject option \<times> storage" where
  "updateTechnologyProject i techProjectUpdate s =
     (case Map_get i (technologyProjects s) of
        None \<Rightarrow> (None, s)
      | Some existingLink \<Rightarrow>
          let updatedLink =
                \<lparr>link_id = link_id existingLink,
                 link_technology_id =
                   spread (link_technology_id existingLink) (upd_link_technology_id techProjectUpdate),
                 link_project_id =
                   spread (link_project_id existingLink) (upd_link_project_id techProjectUpdate),
                 link_notes = spread (link_notes existingLink) (upd_link_notes techProjectUpdate)\<rparr>
          in (Some updatedLink,
              s\<lparr>technologyProjects := Map_set i updatedLink (technologyProjects s)\<rparr>))"

subsection \<open>\<open>initializeData\<close>: clearing, resetting and the first seed\<close>

definition clearAndReset :: "storage \<Rightarrow> storage" where
  "clearAndReset s =
     s\<lparr>technologies := [], quadrants := [], rings := [], projects := [],
       technologyProjects := [],
       techCurrentId := 1, quadrantCurrentId := 1, ringCurrentId := 1,
       projectCurrentId := 1, techProjectCurrentId := 1\<rparr>"

text \<open>The store as the reset leaves it, whatever it held before.\<close>

definition blankStorage :: storage where
  "blankStorage =
     \<lparr>technologies = [], quadrants = [], rings = [], projects = [], technologyProjects = [],
      techCurrentId = 1, quadrantCurrentId = 1, ringCurrentId = 1, projectCurrentId = 1,
      techProjectCurrentId = 1\<rparr>"

text \<open>The four quadrants and the four rings that \<open>initializeData\<close> creates first.\<close>

definition seedQuadrantsAndRings :: "storage \<Rightarrow> storage" where
  "seedQuadrantsAndRings s0 =
     (let s = clearAndReset s0;
          (techniques, s) = createQuadrant
             \<lparr>ins_quad_name = ''Techniques'',
              ins_quad_description = ''Elements of a software development process, such as experience design and coding practices'',
              ins_quad_color = Value ''#3b82f6''\<rparr> s;
          (tools, s) = createQuadrant
             \<lparr>ins_quad_name = ''Tools'',
              ins_quad_description = ''Software development tools and supporting services'',
              ins_quad_color = Value ''#8b5cf6''\<rparr> s;
          (frameworks, s) = createQuadrant
             \<lparr>ins_quad_name = ''Frameworks'',
              ins_quad_description = ''Programming frameworks and foundation libraries'',
              ins_quad_color = Value ''#f97316''\<rparr> s;
          (platforms, s) = createQuadrant
             \<lparr>ins_quad_name = ''Platforms'',
              ins_quad_description = ''Things that we build software on top of: infrastructure, databases, etc.'',
              ins_quad_color = Value ''#ec4899''\<rparr> s;
          (adopt, s) = createRing
             \<lparr>ins_ring_name = ''Adopt'',
              ins_ring_description = ''We strongly recommend using these technologies when appropriate'',
              ins_ring_color = Value ''#10b981''\<rparr> s;
          (trial, s) = createRing
             \<lparr>ins_ring_name = ''Trial'',
              ins_ring_description = ''These technologies are ready for trial use, but not yet for widespread adoption'',
              ins_ring_color = Value ''#3b82f6''\<rparr> s;
          (assess, s) = createRing
             \<lparr>ins_ring_name = ''Assess'',
              ins_ring_description = ''These technologies are worth exploring to understand how they can be useful'',
              ins_ring_color = Value ''#f59e0b''\<rparr> s;
          (hold, s) = createRing
             \<lparr>ins_ring_name = ''Hold'',
              ins_ring_description = ''Proceed with caution with these technologies'',
              ins_ring_color = Value ''#ef4444''\<rparr> s
      in s)"

subsection \<open>Sequences of calls\<close>

datatype collection = Technologies | Quadrants | Rings | Projects | TechnologyProjects

datatype operation =
    CreateTechnology insertTechnology
  | UpdateTechnology int technologyUpdate
  | CreateQuadrant insertQuadrant
  | UpdateQuadrant int quadrantUpdate
  | CreateRing insertRing
  | UpdateRing int ringUpdate
  | CreateProject insertProject
  | UpdateProject int projectUpdate
  | LinkTechnologyToProject insertTechnologyProject
  | UpdateTechnologyProject int technologyProjectUpdate

text \<open>
  One call on the store: the collection and the id of the entity when the call is a
  create, and the store afterwards.
\<close>

fun perform :: "operation \<Rightarrow> storage \<Rightarrow> (collection \<times> int) option \<times> storage" where
  "perform (CreateTechnology inp) s =
     (let (e, s') = createTechnology inp s in (Some (Technologies, tech_id e), s'))"
| "perform (UpdateTechnology i u) s = (None, snd (updateTechnology i u s))"
| "perform (CreateQuadrant inp) s =
     (let (e, s') = createQuadrant inp s in (Some (Quadrants, quad_id e), s'))"
| "perform (UpdateQuadrant i u) s = (None, snd (updateQuadrant i u s))"
| "perform (CreateRing inp) s =
     (let (e, s') = createRing inp s in (Some (Rings, ring_id e), s'))"
| "perform (UpdateRing i u) s = (None, snd (updateRing i u s))"
| "perform (CreateProject inp) s =
     (let (e, s') = createProject inp s in (Some (Projects, proj_id e), s'))"
| "perform (UpdateProject i u) s = (None, snd (updateProject i u s))"
| "perform (LinkTechnologyToProject inp) s =
     (let (e, s') = linkTechnologyToProject inp s in (Some (TechnologyProjects, link_id e), s'))"
| "perform (UpdateTechnologyProject i u) s = (None, snd (updateTechnologyProject i u s))"

text \<open>A sequence of calls: the ids that the creates returned, in call order.\<close>

fun run :: "operation list \<Rightarrow> storage \<Rightarrow> (collection \<times> int) list \<times> storage" where
  "run [] s = ([], s)"
| "run (c # cs) s =
     (let (r, s1) = perform c s;
          (rs, s2) = run cs s1
      in ((case r of None \<Rightarrow> rs | Some x \<Rightarrow> x # rs), s2))"

definition idsOf :: "collection \<Rightarrow> (collection \<times> int) list \<Rightarrow> int list" where
  "idsOf c rs = map snd (filter (\<lambda>r. fst r = c) rs)"

definition currentId :: "collection \<Rightarrow> storage \<Rightarrow> int" where
  "currentId c s =
     (case c of
        Technologies \<Rightarrow> techCurrentId s
      | Quadrants \<Rightarrow> quadrantCurrentId s
      | Rings \<Rightarrow> ringCurrentId s
      | Projects \<Rightarrow> projectCurrentId s
      | TechnologyProjects \<Rightarrow> techProjectCurrentId s)"

text \<open>Every entity sits under its own id.\<close>

definition idsMatchKeys :: "storage \<Rightarrow> bool" where
  "idsMatchKeys s =
     (list_all (\<lambda>(k, e). tech_id e = k) (technologies s)
      \<and> list_all (\<lambda>(k, e). quad_id e = k) (quadrants s)
      \<and> list_all (\<lambda>(k, e). ring_id e = k) (rings s)
      \<and> list_all (\<lambda>(k, e). proj_id e = k) (projects s)
      \<and> list_all (\<lambda>(k, e). link_id e = k) (technologyProjects s))"

subsection \<open>The search of the specification\<close>

text \<open>
  The specification's words: a technology matches when the lowercased query is a
  substring of its lowercased name, or of its lowercased description, or of the
  lowercasing of at least one of its tags.
\<close>

definition isSubstringOf :: "string \<Rightarrow> string \<Rightarrow> bool" where
  "isSubstringOf t s = (\<exists>before after. s = before @ t @ after)"

definition tagsOf :: "technology \<Rightarrow> string set" where
  "tagsOf tech = (case tech_tags tech of None \<Rightarrow> {} | Some tags \<Rightarrow> set tags)"

definition matchesQuery :: "string \<Rightarrow> technology \<Rightarrow> bool" where
  "matchesQuery q tech =
     (isSubstringOf (toLowerCase q) (toLowerCase (tech_name tech))
      \<or> isSubstringOf (toLowerCase q) (toLowerCase (tech_description tech))
      \<or> (\<exists>tag \<in> tagsOf tech. isSubstringOf (toLowerCase q) (toLowerCase tag)))"

subsection \<open>The shallow merge of the specification\<close>

text \<open>
  One field after an update: the new value when the partial input names the field,
  also when that value is null, and the old value when it does not.
\<close>

definition mergedField :: "'a option \<Rightarrow> 'a \<Rightarrow> 'a \<Rightarrow> bool" where
  "mergedField named old new = (case named of Some v \<Rightarrow> new = v | None \<Rightarrow> new = old)"

definition mergedTechnology :: "technology \<Rightarrow> technologyUpdate \<Rightarrow> technology \<Rightarrow> bool" where
  "mergedTechnology e u e' =
     (tech_id e' = tech_id e
      \<and> mergedField (upd_tech_name u) (tech_name e) (tech_name e')
      \<and> mergedField (upd_tech_description u) (tech_description e) (tech_description e')
      \<and> mergedField (upd_tech_quadrant u) (tech_quadrant e) (tech_quadrant e')
      \<and> mergedField (upd_tech_ring u) (tech_ring e) (tech_ring e')
      \<and> mergedField (upd_tech_website u) (tech_website e) (tech_website e')
      \<and> mergedField (upd_tech_tags u) (tech_tags e) (tech_tags e')
      \<and> mergedField (upd_tech_custom_properties u) (tech_custom_properties e)
            (tech_custom_properties e'))"

definition mergedQuadrant :: "quadrant \<Rightarrow> quadrantUpdate \<Rightarrow> quadrant \<Rightarrow> bool" where
  "mergedQuadrant e u e' =
     (quad_id e' = quad_id e
      \<and> mergedField (upd_quad_name u) (quad_name e) (quad_name e')
      \<and> mergedField (upd_quad_description u) (quad_description e) (quad_description e')
      \<and> mergedField (upd_quad_color u) (quad_color e) (quad_color e'))"

definition mergedRing :: "ring \<Rightarrow> ringUpdate \<Rightarrow> ring \<Rightarrow> bool" where
  "mergedRing e u e' =
     (ring_id e' = ring_id e
      \<and> mergedField (upd_ring_name u) (ring_name e) (ring_name e')
      \<and> mergedField (upd_ring_description u) (ring_description e) (ring_description e')
      \<and> mergedField (upd_ring_color u) (ring_color e) (ring_color e'))"

definition mergedProject :: "project \<Rightarrow> projectUpdate \<Rightarrow> project \<Rightarrow> bool" where
  "mergedProject e u e' =
     (proj_id e' = proj_id e
      \<and> mergedField (upd_proj_name u) (proj_name e) (proj_name e')
      \<and> mergedField (upd_proj_description u) (proj_description e) (proj_description e')
      \<and> mergedField (upd_proj_status u) (proj_status e) (proj_status e')
      \<and> mergedField (upd_proj_website u) (proj_website e) (proj_website e')
      \<and> mergedField (upd_proj_repository u) (proj_repository e) (proj_repository e')
      \<and> mergedField (upd_proj_image u) (proj_image e) (proj_image e'))"

definition mergedTechnologyProject ::
    "technologyProject \<Rightarrow> technologyProjectUpdate \<Rightarrow> technologyProject \<Rightarrow> bool" where
  "mergedTechnologyProject e u e' =
     (link_id e' = link_id e
      \<and> mergedField (upd_link_technology_id u) (link_technology_id e) (link_technology_id e')
      \<and> mergedField (upd_link_project_id u) (link_project_id e) (link_project_id e')
      \<and> mergedField (upd_link_notes u) (link_notes e) (link_notes e'))"

text \<open>The partial inputs that name nothing, and the one that names only \<open>name\<close>.\<close>

definition noTechnologyUpdate :: technologyUpdate where
  "noTechnologyUpdate =
     \<lparr>upd_tech_name = None, upd_tech_description = None, upd_tech_quadrant = None,
      upd_tech_ring = None, upd_tech_website = None, upd_tech_tags = None,
      upd_tech_custom_properties = None\<rparr>"

definition noQuadrantUpdate :: quadrantUpdate where
  "noQuadrantUpdate = \<lparr>upd_quad_name = None, upd_quad_description = None, upd_quad_color = None\<rparr>"

definition noRingUpdate :: ringUpdate where
  "noRingUpdate = \<lparr>upd_ring_name = None, upd_ring_description = None, upd_ring_color = None\<rparr>"

definition noProjectUpdate :: projectUpdate where
  "noProjectUpdate =
     \<lparr>upd_proj_name = None, upd_proj_description = None, upd_proj_status = None,
      upd_proj_website = None, upd_proj_repository = None, upd_proj_image = None\<rparr>"

definition noTechnologyProjectUpdate :: technologyProjectUpdate where
  "noTechnologyProjectUpdate =
     \<lparr>upd_link_technology_id = None, upd_link_project_id = None, upd_link_notes = None\<rparr>"

subsection \<open>Sample inputs\<close>

text \<open>Three of the technologies, one of the projects and one of the links of the seed.\<close>

definition kubernetes :: insertTechnology where
  \<open>kubernetes =
     \<lparr>ins_tech_name = ''Kubernetes'',
      ins_tech_description = ''An open-source container orchestration platform for automating deployment, scaling, and management.'',
      ins_tech_quadrant = 2, ins_tech_ring = 0,
      ins_tech_website = Value ''https://kubernetes.io'',
      ins_tech_tags = Value [''container'', ''orchestration'', ''devops''],
      ins_tech_custom_properties = Value ''{"ecosystem_size":"large","learning_curve":"steep"}''\<rparr>\<close>

definition docker :: insertTechnology where
  \<open>docker =
     \<lparr>ins_tech_name = ''Docker'',
      ins_tech_description = ''A platform for developing, shipping, and running applications in containers.'',
      ins_tech_quadrant = 1, ins_tech_ring = 0,
      ins_tech_website = Value ''https://www.docker.com'',
      ins_tech_tags = Value [''container'', ''devops'', ''deployment''],
      ins_tech_custom_properties = Value ''{"ecosystem_size":"large","learning_curve":"medium"}''\<rparr>\<close>

definition dockerCompose :: insertTechnology where
  \<open>dockerCompose =
     \<lparr>ins_tech_name = ''Docker Compose'',
      ins_tech_description = ''A tool for defining and running multi-container Docker applications.'',
      ins_tech_quadrant = 1, ins_tech_ring = 0,
      ins_tech_website = Value ''https://docs.docker.com/compose'',
      ins_tech_tags = Value [''container'', ''docker'', ''configuration''],
      ins_tech_custom_properties = Value ''{"ecosystem_size":"large","learning_curve":"gentle"}''\<rparr>\<close>

definition techRadar :: insertProject where
  "techRadar =
     \<lparr>ins_proj_name = ''VW Tech Radar'',
      ins_proj_description = ''Visualization tool for technology choices and assessment'',
      ins_proj_status = ''active'',
      ins_proj_website = Absent, ins_proj_repository = Absent, ins_proj_image = Absent\<rparr>"

definition dockerLink :: insertTechnologyProject where
  "dockerLink =
     \<lparr>ins_link_technology_id = 5, ins_link_project_id = 3,
      ins_link_notes = Value ''Used for containerization''\<rparr>"

text \<open>
  A store holding the three technologies, the project and the link, on top of the seeded
  quadrants and rings.
\<close>

definition sampleStorage :: storage where
  "sampleStorage =
     (let s = seedQuadrantsAndRings blankStorage;
          (k, s) = createTechnology kubernetes s;
          (d, s) = createTechnology docker s;
          (c, s) = createTechnology dockerCompose s;
          (p, s) = createProject techRadar s;
          (l, s) = linkTechnologyToProject dockerLink s
      in s)"

text \<open>A short sequence of calls on two collections.\<close>

definition sampleCalls :: "operation list" where
  "sampleCalls =
     [CreateTechnology docker,
      CreateQuadrant \<lparr>ins_quad_name = ''Tools'',
                      ins_quad_description = ''Software development tools and supporting services'',
                      ins_quad_color = Absent\<rparr>,
      UpdateTechnology 1 (noTechnologyUpdate\<lparr>upd_tech_name := Some ''Moby''\<rparr>),
      CreateTechnology dockerCompose]"

section \<open>Properties of \<open>Map\<close>\<close>

lemma Map_get_set_same: "Map_get k (Map_set k v m) = Some v"
  by (induction m) auto

lemma Map_get_set_other: "k' \<noteq> k \<Longrightarrow> Map_get k' (Map_set k v m) = Map_get k' m"
  by (induction m) auto

lemma Map_get_None_iff: "Map_get k m = None \<longleftrightarrow> k \<notin> set (Map_keys m)"
  by (induction m) (auto simp: Map_keys_def split: if_splits)

lemma Map_get_Some_mem: "Map_get k m = Some v \<Longrightarrow> (k, v) \<in> set m"
  by (induction m) (auto split: if_splits)

lemma Map_keys_mem: "(k, e) \<in> set m \<Longrightarrow> k \<in> set (Map_keys m)"
  by (force simp: Map_keys_def)

section \<open>The sample store, evaluated\<close>

lemmas create_defs = createTechnology_def createQuadrant_def createRing_def createProject_def
  linkTechnologyToProject_def

lemmas update_defs = updateTechnology_def updateQuadrant_def updateRing_def updateProject_def
  updateTechnologyProject_def

lemmas get_defs = getTechnology_def getQuadrant_def getRing_def getProject_def
  getTechnologyProject_def

lemmas no_update_defs = noTechnologyUpdate_def noQuadrantUpdate_def noRingUpdate_def
  noProjectUpdate_def noTechnologyProjectUpdate_def

lemmas sample_defs = sampleStorage_def seedQuadrantsAndRings_def clearAndReset_def
  blankStorage_def createQuadrant_def createRing_def createTechnology_def createProject_def
  linkTechnologyToProject_def Let_def kubernetes_def docker_def dockerCompose_def techRadar_def
  dockerLink_def

lemmas string_defs = trim_def isWhiteSpace_def toLowerCase_def toLowerCaseUnit_def

lemma sample_names: "map tech_name (getTechnologies sampleStorage) = [''Kubernetes'', ''Docker'', ''Docker Compose'']"
  by (simp add: sample_defs getTechnologies_def Map_values_def)

lemma sample_technologies: "Map_keys (technologies sampleStorage) = [1, 2, 3]"
  by (simp add: sample_defs Map_keys_def)

lemma sample_keys:
  "Map_keys (quadrants sampleStorage) = [1, 2, 3, 4]"
  "Map_keys (rings sampleStorage) = [1, 2, 3, 4]"
  "Map_keys (projects sampleStorage) = [1]"
  "Map_keys (technologyProjects sampleStorage) = [1]"
  by (simp_all add: sample_defs Map_keys_def)

lemma sample_first:
  "\<exists>e. getTechnology 1 sampleStorage = Some e \<and> tech_id e = 1 \<and> tech_name e = ''Kubernetes''
        \<and> tech_website e = Some ''https://kubernetes.io''"
  "\<exists>e. getQuadrant 1 sampleStorage = Some e \<and> quad_id e = 1 \<and> quad_name e = ''Techniques''"
  "\<exists>e. getRing 1 sampleStorage = Some e \<and> ring_id e = 1 \<and> ring_name e = ''Adopt''"
  "\<exists>e. getProject 1 sampleStorage = Some e \<and> proj_id e = 1 \<and> proj_name e = ''VW Tech Radar''"
  "\<exists>e. getTechnologyProject 1 sampleStorage = Some e \<and> link_id e = 1 \<and> link_project_id e = 3"
  by (simp_all add: sample_defs get_defs)

lemma sampleCalls_run:
  "fst (run sampleCalls (clearAndReset blankStorage)) = [(Technologies, 1), (Quadrants, 1), (Technologies, 2)]"
  "map (\<lambda>(k, e). (k, tech_id e, tech_name e)) (technologies (snd (run sampleCalls (clearAndReset blankStorage))))
     = [(1, 1, ''Moby''), (2, 2, ''Docker Compose'')]"
  by (simp_all add: sampleCalls_def sample_defs create_defs update_defs no_update_defs)

section \<open>Reading back what was created\<close>

text \<open>
  C1. In each of the five collections, \<open>get\<close> with the id of the entity that \<open>create\<close>
  returned, on the store that \<open>create\<close> left, returns that entity. (The technology,
  quadrant and ring methods are those of the source; the project and link methods are
  the modelled ones.)
\<close>

theorem get_after_create:
  "getTechnology (tech_id (fst (createTechnology it s))) (snd (createTechnology it s))
     = Some (fst (createTechnology it s))
   \<and> getQuadrant (quad_id (fst (createQuadrant iq s))) (snd (createQuadrant iq s))
     = Some (fst (createQuadrant iq s))
   \<and> getRing (ring_id (fst (createRing ir s))) (snd (createRing ir s))
     = Some (fst (createRing ir s))
   \<and> getProject (proj_id (fst (createProject ip s))) (snd (createProject ip s))
     = Some (fst (createProject ip s))
   \<and> getTechnologyProject (link_id (fst (linkTechnologyToProject il s)))
       (snd (linkTechnologyToProject il s)) = Some (fst (linkTechnologyToProject il s))"
  by (simp add: getTechnology_def createTechnology_def getQuadrant_def createQuadrant_def
      getRing_def createRing_def getProject_def createProject_def getTechnologyProject_def
      linkTechnologyToProject_def Let_def Map_get_set_same)

section \<open>Searching\<close>

text \<open>The lower-case code unit of a capital letter is 32 above it; others stay.\<close>

lemma toLowerCaseUnit_adds_32:
  fixes c :: char
  defines "n \<equiv> (of_char c :: nat)"
  assumes "(65 \<le> n \<and> n \<le> 90) \<or> (192 \<le> n \<and> n \<le> 222 \<and> n \<noteq> 215)"
  shows "(of_char (toLowerCaseUnit c) :: nat) = n + 32"
proof (cases c)
  case (Char b0 b1 b2 b3 b4 b5 b6 b7)
  have low: "(of_bool b0 + 2 * of_bool b1 + 4 * of_bool b2 + 8 * of_bool b3 + 16 * of_bool b4 :: nat) \<le> 31"
    by (simp add: of_bool_def)
  from assms(2) Char low have "\<not> b5"
    unfolding n_def by (cases b5; cases b6; cases b7) auto
  with Char assms(2) show ?thesis
    unfolding n_def by (simp add: toLowerCaseUnit_def Let_def)
qed

lemma toLowerCaseUnit_other:
  fixes c :: char
  defines "n \<equiv> (of_char c :: nat)"
  assumes "\<not> ((65 \<le> n \<and> n \<le> 90) \<or> (192 \<le> n \<and> n \<le> 222 \<and> n \<noteq> 215))"
  shows "toLowerCaseUnit c = c"
  using assms(2) unfolding n_def by (auto simp: toLowerCaseUnit_def Let_def)

lemma startsWith_iff: "startsWith s t \<longleftrightarrow> (\<exists>after. s = t @ after)"
  by (induction s t rule: startsWith.induct) auto

lemma isSubstringOf_Cons:
  "isSubstringOf t (d # s) \<longleftrightarrow> (\<exists>after. d # s = t @ after) \<or> isSubstringOf t s"
  unfolding isSubstringOf_def
proof
  assume "\<exists>before after. d # s = before @ t @ after"
  then obtain before after where e: "d # s = before @ t @ after" by blast
  show "(\<exists>after. d # s = t @ after) \<or> (\<exists>before after. s = before @ t @ after)"
  proof (cases before)
    case Nil
    with e show ?thesis by auto
  next
    case (Cons b bs)
    with e have "s = bs @ t @ after" by simp
    then show ?thesis by blast
  qed
next
  assume "(\<exists>after. d # s = t @ after) \<or> (\<exists>before after. s = before @ t @ after)"
  then show "\<exists>before after. d # s = before @ t @ after"
  proof
    assume "\<exists>after. d # s = t @ after"
    then obtain after where "d # s = [] @ t @ after" by auto
    then show ?thesis by blast
  next
    assume "\<exists>before after. s = before @ t @ after"
    then obtain before after where "s = before @ t @ after" by blast
    then have "d # s = (d # before) @ t @ after" by simp
    then show ?thesis by blast
  qed
qed

lemma String_includes_iff: "String_includes s t \<longleftrightarrow> isSubstringOf t s"
proof (induction s)
  case Nil
  then show ?case by (auto simp: isSubstringOf_def)
next
  case (Cons d s)
  then show ?case by (simp add: startsWith_iff isSubstringOf_Cons)
qed

lemma trim_Nil_iff: "trim q = [] \<longleftrightarrow> (\<forall>c \<in> set q. isWhiteSpace c)"
proof
  assume a: "\<forall>c \<in> set q. isWhiteSpace c"
  then have h: "dropWhile isWhiteSpace q = []" by (simp add: dropWhile_eq_Nil_conv)
  show "trim q = []" unfolding trim_def h by simp
next
  assume t: "trim q = []"
  show "\<forall>c \<in> set q. isWhiteSpace c"
  proof (rule ccontr)
    assume "\<not> (\<forall>c \<in> set q. isWhiteSpace c)"
    then have ne: "dropWhile isWhiteSpace q \<noteq> []" by (simp add: dropWhile_eq_Nil_conv)
    then have "\<not> isWhiteSpace (hd (dropWhile isWhiteSpace q))" by (rule hd_dropWhile)
    moreover have "hd (dropWhile isWhiteSpace q) \<in> set (rev (dropWhile isWhiteSpace q))"
      using ne by simp
    ultimately have "dropWhile isWhiteSpace (rev (dropWhile isWhiteSpace q)) \<noteq> []"
      by (auto simp: dropWhile_eq_Nil_conv)
    with t show False by (simp add: trim_def)
  qed
qed

lemma search_filter:
  "query \<noteq> [] \<Longrightarrow> trim query \<noteq> [] \<Longrightarrow>
   searchTechnologies query s = filter (matchesQuery query) (getTechnologies s)"
  by (auto simp: searchTechnologies_def getTechnologies_def matchesQuery_def tagsOf_def Let_def
      String_includes_iff list_ex_iff intro!: filter_cong split: option.splits)

text \<open>
  C2. For a query that is not empty and does not consist of whitespace only,
  \<open>searchTechnologies\<close> returns exactly the technologies of the store, in the store's
  order, for which the lowercased query is a substring of the lowercased name, or of the
  lowercased description, or of the lowercasing of at least one tag: a technology is in
  the result if and only if it is in the store and one of the three fields matches.
\<close>

theorem search_matches:
  assumes "query \<noteq> []" and "\<not> (\<forall>c \<in> set query. isWhiteSpace c)"
  shows "searchTechnologies query s = filter (matchesQuery query) (getTechnologies s)
     \<and> (\<forall>tech. tech \<in> set (searchTechnologies query s)
            \<longleftrightarrow> tech \<in> set (getTechnologies s) \<and> matchesQuery query tech)"
proof -
  from assms(2) have "trim query \<noteq> []" by (simp add: trim_Nil_iff)
  with assms(1) have "searchTechnologies query s = filter (matchesQuery query) (getTechnologies s)"
    by (rule search_filter)
  then show ?thesis by auto
qed


text \<open>Searching "docker" finds "Docker" and "Docker Compose" and leaves "Kubernetes" out.\<close>

theorem search_matches_witness:
  "''docker'' \<noteq> [] \<and> \<not> (\<forall>c \<in> set ''docker''. isWhiteSpace c)
   \<and> searchTechnologies ''docker'' sampleStorage
       = filter (matchesQuery ''docker'') (getTechnologies sampleStorage)
   \<and> map tech_name (getTechnologies sampleStorage) = [''Kubernetes'', ''Docker'', ''Docker Compose'']
   \<and> map tech_name (filter (matchesQuery ''docker'') (getTechnologies sampleStorage))
       = [''Docker'', ''Docker Compose'']"
proof -
  have h1: "''docker'' \<noteq> []" by simp
  have h2: "\<not> (\<forall>c \<in> set ''docker''. isWhiteSpace c)" by (simp add: isWhiteSpace_def)
  have h3: "map tech_name (searchTechnologies ''docker'' sampleStorage) = [''Docker'', ''Docker Compose'']"
    by (simp add: sample_defs searchTechnologies_def getTechnologies_def Map_values_def string_defs)
  have h4: "map tech_name (getTechnologies sampleStorage) = [''Kubernetes'', ''Docker'', ''Docker Compose'']"
    by (rule sample_names)
  note t = search_matches [OF h1 h2, of sampleStorage]
  from t have e: "searchTechnologies ''docker'' sampleStorage
       = filter (matchesQuery ''docker'') (getTechnologies sampleStorage)" by (rule conjunct1)
  from h3 e have h5: "map tech_name (filter (matchesQuery ''docker'') (getTechnologies sampleStorage))
       = [''Docker'', ''Docker Compose'']" by (simp only:)
  from h1 h2 e h4 h5 show ?thesis by (intro conjI)
qed

text \<open>
  C3. \<open>searchTechnologies\<close> on the empty string, and on a string of whitespace only,
  returns the list that \<open>getTechnologies\<close> returns: the same elements in the same order.
\<close>

theorem search_blank_query:
  "searchTechnologies [] s = getTechnologies s
   \<and> ((\<forall>c \<in> set q. isWhiteSpace c) \<longrightarrow> searchTechnologies q s = getTechnologies s)"
  by (simp add: searchTechnologies_def trim_Nil_iff)

theorem search_blank_query_witness:
  "list_all isWhiteSpace ''   ''
   \<and> searchTechnologies ''   '' sampleStorage = getTechnologies sampleStorage
   \<and> map tech_name (getTechnologies sampleStorage) = [''Kubernetes'', ''Docker'', ''Docker Compose'']"
proof -
  have h: "list_all isWhiteSpace ''   ''" by (simp add: isWhiteSpace_def)
  then have "\<forall>c \<in> set ''   ''. isWhiteSpace c" by (simp only: list_all_iff)
  with search_blank_query [of sampleStorage "''   ''"]
  have "searchTechnologies ''   '' sampleStorage = getTechnologies sampleStorage" by blast
  with h sample_names show ?thesis by (intro conjI)
qed

section \<open>Updating\<close>

lemma mergedField_spread: "mergedField named old (spread old named)"
  by (cases named) (simp_all add: mergedField_def)

lemma updateTechnology_merge:
  assumes "getTechnology i s = Some e"
  shows "\<exists>e'. fst (updateTechnology i u s) = Some e'
           \<and> getTechnology i (snd (updateTechnology i u s)) = Some e'
           \<and> mergedTechnology e u e'"
  using assms
  by (simp add: getTechnology_def updateTechnology_def Let_def Map_get_set_same
      mergedTechnology_def mergedField_spread)

lemma updateQuadrant_merge:
  assumes "getQuadrant i s = Some e"
  shows "\<exists>e'. fst (updateQuadrant i u s) = Some e'
           \<and> getQuadrant i (snd (updateQuadrant i u s)) = Some e'
           \<and> mergedQuadrant e u e'"
  using assms
  by (simp add: getQuadrant_def updateQuadrant_def Let_def Map_get_set_same
      mergedQuadrant_def mergedField_spread)

lemma updateRing_merge:
  assumes "getRing i s = Some e"
  shows "\<exists>e'. fst (updateRing i u s) = Some e'
           \<and> getRing i (snd (updateRing i u s)) = Some e'
           \<and> mergedRing e u e'"
  using assms
  by (simp add: getRing_def updateRing_def Let_def Map_get_set_same
      mergedRing_def mergedField_spread)

lemma updateProject_merge:
  assumes "getProject i s = Some e"
  shows "\<exists>e'. fst (updateProject i u s) = Some e'
           \<and> getProject i (snd (updateProject i u s)) = Some e'
           \<and> mergedProject e u e'"
  using assms
  by (simp add: getProject_def updateProject_def Let_def Map_get_set_same
      mergedProject_def mergedField_spread)

lemma updateTechnologyProject_merge:
  assumes "getTechnologyProject i s = Some e"
  shows "\<exists>e'. fst (updateTechnologyProject i u s) = Some e'
           \<and> getTechnologyProject i (snd (updateTechnologyProject i u s)) = Some e'
           \<and> mergedTechnologyProject e u e'"
  using assms
  by (simp add: getTechnologyProject_def updateTechnologyProject_def Let_def Map_get_set_same
      mergedTechnologyProject_def mergedField_spread)

lemma updateTechnology_name_only:
  assumes "getTechnology i s = Some e"
  shows "fst (updateTechnology i (noTechnologyUpdate\<lparr>upd_tech_name := Some x\<rparr>) s)
           = Some (e\<lparr>tech_name := x\<rparr>)
         \<and> getTechnology i (snd (updateTechnology i (noTechnologyUpdate\<lparr>upd_tech_name := Some x\<rparr>) s))
           = Some (e\<lparr>tech_name := x\<rparr>)"
  using assms
  by (simp add: getTechnology_def updateTechnology_def Let_def Map_get_set_same
      noTechnologyUpdate_def)

text \<open>
  C4. On an id that the collection holds, \<open>update\<close> is a shallow merge: in the entity
  it returns, which is also the entity it stores, every field that the partial input
  names has the input's value (null included) and every other field, the id among them,
  has the existing entity's value. An update that names only \<open>name\<close> returns and
  stores the existing entity with the name replaced and nothing else changed.
\<close>

theorem update_shallow_merge:
  "(getTechnology i s = Some et \<longrightarrow>
      (\<exists>e'. fst (updateTechnology i ut s) = Some e'
         \<and> getTechnology i (snd (updateTechnology i ut s)) = Some e'
         \<and> mergedTechnology et ut e')
      \<and> fst (updateTechnology i (noTechnologyUpdate\<lparr>upd_tech_name := Some x\<rparr>) s)
           = Some (et\<lparr>tech_name := x\<rparr>)
      \<and> getTechnology i (snd (updateTechnology i (noTechnologyUpdate\<lparr>upd_tech_name := Some x\<rparr>) s))
           = Some (et\<lparr>tech_name := x\<rparr>))
   \<and> (getQuadrant i s = Some eq \<longrightarrow>
      (\<exists>e'. fst (updateQuadrant i uq s) = Some e'
         \<and> getQuadrant i (snd (updateQuadrant i uq s)) = Some e'
         \<and> mergedQuadrant eq uq e'))
   \<and> (getRing i s = Some er \<longrightarrow>
      (\<exists>e'. fst (updateRing i ur s) = Some e'
         \<and> getRing i (snd (updateRing i ur s)) = Some e'
         \<and> mergedRing er ur e'))
   \<and> (getProject i s = Some ep \<longrightarrow>
      (\<exists>e'. fst (updateProject i up s) = Some e'
         \<and> getProject i (snd (updateProject i up s)) = Some e'
         \<and> mergedProject ep up e'))
   \<and> (getTechnologyProject i s = Some el \<longrightarrow>
      (\<exists>e'. fst (updateTechnologyProject i ul s) = Some e'
         \<and> getTechnologyProject i (snd (updateTechnologyProject i ul s)) = Some e'
         \<and> mergedTechnologyProject el ul e'))"
  using updateTechnology_merge [of i s et ut] updateTechnology_name_only [of i s et x]
    updateQuadrant_merge [of i s eq uq] updateRing_merge [of i s er ur]
    updateProject_merge [of i s ep up] updateTechnologyProject_merge [of i s el ul]
  by blast

text \<open>
  On the sample store: an explicit null replaces the website of technology 1 and leaves
  its name and id; likewise for one field of the first entity of each other collection.
\<close>

theorem update_shallow_merge_witness:
  "getTechnology 1 sampleStorage \<noteq> None \<and> getQuadrant 1 sampleStorage \<noteq> None
   \<and> getRing 1 sampleStorage \<noteq> None \<and> getProject 1 sampleStorage \<noteq> None
   \<and> getTechnologyProject 1 sampleStorage \<noteq> None
   \<and> (\<exists>e'. fst (updateTechnology 1 (noTechnologyUpdate\<lparr>upd_tech_website := Some None\<rparr>)
                 sampleStorage) = Some e'
          \<and> tech_website e' = None \<and> tech_name e' = ''Kubernetes'' \<and> tech_id e' = 1)
   \<and> (\<exists>e'. fst (updateQuadrant 1 (noQuadrantUpdate\<lparr>upd_quad_name := Some ''Methods''\<rparr>)
                 sampleStorage) = Some e'
          \<and> quad_name e' = ''Methods'' \<and> quad_id e' = 1)
   \<and> (\<exists>e'. fst (updateRing 1 (noRingUpdate\<lparr>upd_ring_color := Some None\<rparr>) sampleStorage)
              = Some e'
          \<and> ring_color e' = None \<and> ring_name e' = ''Adopt'')
   \<and> (\<exists>e'. fst (updateProject 1 (noProjectUpdate\<lparr>upd_proj_status := Some ''completed''\<rparr>)
                 sampleStorage) = Some e'
          \<and> proj_status e' = ''completed'' \<and> proj_name e' = ''VW Tech Radar'')
   \<and> (\<exists>e'. fst (updateTechnologyProject 1
                 (noTechnologyProjectUpdate\<lparr>upd_link_notes := Some None\<rparr>) sampleStorage)
              = Some e'
          \<and> link_notes e' = None \<and> link_project_id e' = 3)"
proof -
  from sample_first(1) obtain et where et: "getTechnology 1 sampleStorage = Some et"
    "tech_id et = 1" "tech_name et = ''Kubernetes''" by blast
  from sample_first(2) obtain eq where eq: "getQuadrant 1 sampleStorage = Some eq"
    "quad_id eq = 1" by blast
  from sample_first(3) obtain er where er: "getRing 1 sampleStorage = Some er"
    "ring_name er = ''Adopt''" by blast
  from sample_first(4) obtain ep where ep: "getProject 1 sampleStorage = Some ep"
    "proj_name ep = ''VW Tech Radar''" by blast
  from sample_first(5) obtain el where el: "getTechnologyProject 1 sampleStorage = Some el"
    "link_project_id el = 3" by blast
  note m = update_shallow_merge [of 1 sampleStorage et
      "noTechnologyUpdate\<lparr>upd_tech_website := Some None\<rparr>" "''K8s''" eq
      "noQuadrantUpdate\<lparr>upd_quad_name := Some ''Methods''\<rparr>" er
      "noRingUpdate\<lparr>upd_ring_color := Some None\<rparr>" ep
      "noProjectUpdate\<lparr>upd_proj_status := Some ''completed''\<rparr>" el
      "noTechnologyProjectUpdate\<lparr>upd_link_notes := Some None\<rparr>"]
  from m et have t: "\<exists>e'. fst (updateTechnology 1 (noTechnologyUpdate\<lparr>upd_tech_website := Some None\<rparr>)
                 sampleStorage) = Some e'
          \<and> tech_website e' = None \<and> tech_name e' = ''Kubernetes'' \<and> tech_id e' = 1"
    by (auto simp: mergedTechnology_def mergedField_def noTechnologyUpdate_def)
  from m eq have q: "\<exists>e'. fst (updateQuadrant 1 (noQuadrantUpdate\<lparr>upd_quad_name := Some ''Methods''\<rparr>)
                 sampleStorage) = Some e'
          \<and> quad_name e' = ''Methods'' \<and> quad_id e' = 1"
    by (auto simp: mergedQuadrant_def mergedField_def noQuadrantUpdate_def)
  from m er have r: "\<exists>e'. fst (updateRing 1 (noRingUpdate\<lparr>upd_ring_color := Some None\<rparr>) sampleStorage)
              = Some e'
          \<and> ring_color e' = None \<and> ring_name e' = ''Adopt''"
    by (auto simp: mergedRing_def mergedField_def noRingUpdate_def)
  from m ep have p: "\<exists>e'. fst (updateProject 1 (noProjectUpdate\<lparr>upd_proj_status := Some ''completed''\<rparr>)
                 sampleStorage) = Some e'
          \<and> proj_status e' = ''completed'' \<and> proj_name e' = ''VW Tech Radar''"
    by (auto simp: mergedProject_def mergedField_def noProjectUpdate_def)
  from m el have l: "\<exists>e'. fst (updateTechnologyProject 1
                 (noTechnologyProjectUpdate\<lparr>upd_link_notes := Some None\<rparr>) sampleStorage)
              = Some e'
          \<and> link_notes e' = None \<and> link_project_id e' = 3"
    by (auto simp: mergedTechnologyProject_def mergedField_def noTechnologyProjectUpdate_def)
  from et(1) eq(1) er(1) ep(1) el(1) t q r p l show ?thesis by simp
qed

text \<open>
  C5. On an id that the collection does not hold, \<open>update\<close> returns not-found and the
  store it leaves is the store it was given: no entity and no counter has changed.
\<close>

theorem update_missing_id:
  "(i \<notin> set (Map_keys (technologies s)) \<longrightarrow> updateTechnology i ut s = (None, s))
   \<and> (i \<notin> set (Map_keys (quadrants s)) \<longrightarrow> updateQuadrant i uq s = (None, s))
   \<and> (i \<notin> set (Map_keys (rings s)) \<longrightarrow> updateRing i ur s = (None, s))
   \<and> (i \<notin> set (Map_keys (projects s)) \<longrightarrow> updateProject i up s = (None, s))
   \<and> (i \<notin> set (Map_keys (technologyProjects s)) \<longrightarrow>
         updateTechnologyProject i ul s = (None, s))"
  by (simp add: updateTechnology_def updateQuadrant_def updateRing_def updateProject_def
      updateTechnologyProject_def Map_get_None_iff [symmetric])

text \<open>The id -1 is in no collection of the sample store.\<close>

theorem update_missing_id_witness:
  "-1 \<notin> set (Map_keys (technologies sampleStorage))
   \<and> -1 \<notin> set (Map_keys (quadrants sampleStorage))
   \<and> -1 \<notin> set (Map_keys (rings sampleStorage))
   \<and> -1 \<notin> set (Map_keys (projects sampleStorage))
   \<and> -1 \<notin> set (Map_keys (technologyProjects sampleStorage))
   \<and> updateTechnology (-1) (noTechnologyUpdate\<lparr>upd_tech_name := Some ''X''\<rparr>) sampleStorage
       = (None, sampleStorage)
   \<and> updateQuadrant (-1) (noQuadrantUpdate\<lparr>upd_quad_name := Some ''X''\<rparr>) sampleStorage
       = (None, sampleStorage)
   \<and> updateRing (-1) (noRingUpdate\<lparr>upd_ring_name := Some ''X''\<rparr>) sampleStorage
       = (None, sampleStorage)
   \<and> updateProject (-1) (noProjectUpdate\<lparr>upd_proj_name := Some ''X''\<rparr>) sampleStorage
       = (None, sampleStorage)
   \<and> updateTechnologyProject (-1) (noTechnologyProjectUpdate\<lparr>upd_link_notes := Some None\<rparr>)
        sampleStorage = (None, sampleStorage)"
  using update_missing_id [of "-1" sampleStorage
      "noTechnologyUpdate\<lparr>upd_tech_name := Some ''X''\<rparr>"
      "noQuadrantUpdate\<lparr>upd_quad_name := Some ''X''\<rparr>"
      "noRingUpdate\<lparr>upd_ring_name := Some ''X''\<rparr>"
      "noProjectUpdate\<lparr>upd_proj_name := Some ''X''\<rparr>"
      "noTechnologyProjectUpdate\<lparr>upd_link_notes := Some None\<rparr>"]
  by (simp add: sample_technologies sample_keys)

section \<open>Reading\<close>

text \<open>
  C8. For every id, negative ones included, \<open>get\<close> returns a value and nothing else
  happens: the entity stored under the id, or not-found exactly when the collection
  has no such id.
\<close>

theorem get_total:
  "(case getTechnology i s of
      None \<Rightarrow> i \<notin> set (Map_keys (technologies s))
    | Some e \<Rightarrow> (i, e) \<in> set (technologies s))
   \<and> (case getQuadrant i s of
      None \<Rightarrow> i \<notin> set (Map_keys (quadrants s))
    | Some e \<Rightarrow> (i, e) \<in> set (quadrants s))
   \<and> (case getRing i s of
      None \<Rightarrow> i \<notin> set (Map_keys (rings s))
    | Some e \<Rightarrow> (i, e) \<in> set (rings s))
   \<and> (case getProject i s of
      None \<Rightarrow> i \<notin> set (Map_keys (projects s))
    | Some e \<Rightarrow> (i, e) \<in> set (projects s))
   \<and> (case getTechnologyProject i s of
      None \<Rightarrow> i \<notin> set (Map_keys (technologyProjects s))
    | Some e \<Rightarrow> (i, e) \<in> set (technologyProjects s))"
  by (simp add: getTechnology_def getQuadrant_def getRing_def getProject_def
      getTechnologyProject_def Map_get_None_iff Map_get_Some_mem split: option.split)

text \<open>Ids outside the sample store, negative ones and zero among them, read as not-found.\<close>

theorem get_total_witness:
  "getTechnology (-1) sampleStorage = None \<and> getQuadrant 0 sampleStorage = None
   \<and> getRing 5 sampleStorage = None \<and> getProject 2 sampleStorage = None
   \<and> getTechnologyProject (-7) sampleStorage = None
   \<and> (\<exists>e. getTechnology 2 sampleStorage = Some e \<and> (2, e) \<in> set (technologies sampleStorage))"
proof -
  have a: "-1 \<notin> set (Map_keys (technologies sampleStorage))"
    and b: "0 \<notin> set (Map_keys (quadrants sampleStorage))"
    and c: "5 \<notin> set (Map_keys (rings sampleStorage))"
    and d: "2 \<notin> set (Map_keys (projects sampleStorage))"
    and e: "-7 \<notin> set (Map_keys (technologyProjects sampleStorage))"
    and f: "2 \<in> set (Map_keys (technologies sampleStorage))"
    by (simp_all add: sample_technologies sample_keys)
  from get_total [of "-1" sampleStorage]
  have "case getTechnology (-1) sampleStorage of
          None \<Rightarrow> -1 \<notin> set (Map_keys (technologies sampleStorage))
        | Some e \<Rightarrow> (-1, e) \<in> set (technologies sampleStorage)" by blast
  with a have 1: "getTechnology (-1) sampleStorage = None"
    by (auto dest: Map_keys_mem split: option.splits)
  from get_total [of 0 sampleStorage]
  have "case getQuadrant 0 sampleStorage of
          None \<Rightarrow> 0 \<notin> set (Map_keys (quadrants sampleStorage))
        | Some e \<Rightarrow> (0, e) \<in> set (quadrants sampleStorage)" by blast
  with b have 2: "getQuadrant 0 sampleStorage = None"
    by (auto dest: Map_keys_mem split: option.splits)
  from get_total [of 5 sampleStorage]
  have "case getRing 5 sampleStorage of
          None \<Rightarrow> 5 \<notin> set (Map_keys (rings sampleStorage))
        | Some e \<Rightarrow> (5, e) \<in> set (rings sampleStorage)" by blast
  with c have 3: "getRing 5 sampleStorage = None"
    by (auto dest: Map_keys_mem split: option.splits)
  from get_total [of 2 sampleStorage]
  have "case getProject 2 sampleStorage of
          None \<Rightarrow> 2 \<notin> set (Map_keys (projects sampleStorage))
        | Some e \<Rightarrow> (2, e) \<in> set (projects sampleStorage)" by blast
  with d have 4: "getProject 2 sampleStorage = None"
    by (auto dest: Map_keys_mem split: option.splits)
  from get_total [of "-7" sampleStorage]
  have "case getTechnologyProject (-7) sampleStorage of
          None \<Rightarrow> -7 \<notin> set (Map_keys (technologyProjects sampleStorage))
        | Some e \<Rightarrow> (-7, e) \<in> set (technologyProjects sampleStorage)" by blast
  with e have 5: "getTechnologyProject (-7) sampleStorage = None"
    by (auto dest: Map_keys_mem split: option.splits)
  from get_total [of 2 sampleStorage]
  have "case getTechnology 2 sampleStorage of
          None \<Rightarrow> 2 \<notin> set (Map_keys (technologies sampleStorage))
        | Some e \<Rightarrow> (2, e) \<in> set (technologies sampleStorage)" by blast
  with f have 6: "\<exists>e. getTechnology 2 sampleStorage = Some e \<and> (2, e) \<in> set (technologies sampleStorage)"
    by (auto split: option.splits)
  from 1 2 3 4 5 6 show ?thesis by simp
qed

section \<open>Defaults of \<open>createTechnology\<close>\<close>

text \<open>
  C10. \<open>createTechnology\<close> turns a website given as the empty string into null, and a
  custom_properties given as the empty string into null, while a tags array given
  empty stays the empty array; the entity so returned is the one stored.
\<close>

theorem create_falsy_defaults:
  "(ins_tech_website inp = Value [] \<longrightarrow>
      tech_website (fst (createTechnology inp s)) = None)
   \<and> (ins_tech_custom_properties inp = Value [] \<longrightarrow>
      tech_custom_properties (fst (createTechnology inp s)) = None)
   \<and> (ins_tech_tags inp = Value [] \<longrightarrow>
      tech_tags (fst (createTechnology inp s)) = Some [])
   \<and> getTechnology (tech_id (fst (createTechnology inp s))) (snd (createTechnology inp s))
      = Some (fst (createTechnology inp s))"
  by (simp add: createTechnology_def getTechnology_def Let_def Map_get_set_same)

text \<open>The Kubernetes input with the three optional fields given empty.\<close>

theorem create_falsy_defaults_witness:
  "ins_tech_website (kubernetes\<lparr>ins_tech_website := Value [], ins_tech_tags := Value [],
      ins_tech_custom_properties := Value []\<rparr>) = Value []
   \<and> tech_website (fst (createTechnology
        (kubernetes\<lparr>ins_tech_website := Value [], ins_tech_tags := Value [],
           ins_tech_custom_properties := Value []\<rparr>) sampleStorage)) = None
   \<and> tech_custom_properties (fst (createTechnology
        (kubernetes\<lparr>ins_tech_website := Value [], ins_tech_tags := Value [],
           ins_tech_custom_properties := Value []\<rparr>) sampleStorage)) = None
   \<and> tech_tags (fst (createTechnology
        (kubernetes\<lparr>ins_tech_website := Value [], ins_tech_tags := Value [],
           ins_tech_custom_properties := Value []\<rparr>) sampleStorage)) = Some []"
  using create_falsy_defaults [of "kubernetes\<lparr>ins_tech_website := Value [],
      ins_tech_tags := Value [], ins_tech_custom_properties := Value []\<rparr>" sampleStorage]
  by simp

text \<open>
  C7. In the store seeded with the quadrants Techniques, Tools, Frameworks, Platforms
  and the rings Adopt, Trial, Assess, Hold, creating the technology named Kubernetes
  with quadrant 2, ring 0 and no optional field, whatever its description, and reading
  the returned id back gives quadrant 2, ring 0, tags [], website null and
  custom_properties null.
\<close>

theorem seeded_create_defaults:
  "map quad_name (getQuadrants (seedQuadrantsAndRings s0))
     = [''Techniques'', ''Tools'', ''Frameworks'', ''Platforms'']
   \<and> map ring_name (getRings (seedQuadrantsAndRings s0))
     = [''Adopt'', ''Trial'', ''Assess'', ''Hold'']
   \<and> map_option (\<lambda>e. (tech_quadrant e, tech_ring e, tech_tags e, tech_website e,
                        tech_custom_properties e))
       (getTechnology
          (tech_id (fst (createTechnology
             \<lparr>ins_tech_name = ''Kubernetes'', ins_tech_description = d,
              ins_tech_quadrant = 2, ins_tech_ring = 0, ins_tech_website = Absent,
              ins_tech_tags = Absent, ins_tech_custom_properties = Absent\<rparr>
             (seedQuadrantsAndRings s0))))
          (snd (createTechnology
             \<lparr>ins_tech_name = ''Kubernetes'', ins_tech_description = d,
              ins_tech_quadrant = 2, ins_tech_ring = 0, ins_tech_website = Absent,
              ins_tech_tags = Absent, ins_tech_custom_properties = Absent\<rparr>
             (seedQuadrantsAndRings s0))))
     = Some (2, 0, Some [], None, None)"
  by (simp add: seedQuadrantsAndRings_def clearAndReset_def createQuadrant_def createRing_def
      createTechnology_def getTechnology_def getQuadrants_def getRings_def Map_values_def
      Let_def Map_get_set_same)

section \<open>Id assignment\<close>

lemma perform_create_id:
  "fst (perform c s) = Some (col, i) \<Longrightarrow> i = currentId col s"
  by (cases c) (auto simp: create_defs currentId_def Let_def)

lemma perform_counter:
  "currentId col (snd (perform c s))
     = (case fst (perform c s) of
          None \<Rightarrow> currentId col s
        | Some (col', i) \<Rightarrow> if col' = col then currentId col s + 1 else currentId col s)"
  by (cases c; cases col)
     (auto simp: create_defs update_defs currentId_def Let_def split: option.splits)

lemma upto_from: "0 \<le> n \<Longrightarrow> a # [a + 1 .. a + 1 + n - 1] = [a .. a + (n + 1) - 1]" for a n :: int
  by (simp add: upto_rec1 [of a])

lemma run_ids:
  "idsOf col (fst (run cs s))
     = [currentId col s .. currentId col s + int (length (idsOf col (fst (run cs s)))) - 1]
   \<and> currentId col (snd (run cs s))
     = currentId col s + int (length (idsOf col (fst (run cs s))))"
proof (induction cs arbitrary: s)
  case Nil
  then show ?case by (simp add: idsOf_def)
next
  case (Cons c cs)
  obtain r s1 where p: "perform c s = (r, s1)" by (cases "perform c s")
  obtain rs s2 where q: "run cs s1 = (rs, s2)" by (cases "run cs s1")
  from Cons.IH [of s1] q
  have ih: "idsOf col rs = [currentId col s1 .. currentId col s1 + int (length (idsOf col rs)) - 1]"
    and ih2: "currentId col s2 = currentId col s1 + int (length (idsOf col rs))"
    by simp_all
  show ?case
  proof (cases r)
    case None
    with p perform_counter [of col c s] have "currentId col s1 = currentId col s" by simp
    with None p q ih ih2 show ?thesis by simp
  next
    case (Some x)
    obtain col' i where x: "x = (col', i)" by (cases x)
    from p Some x perform_create_id [of c s col' i] have i: "i = currentId col' s" by simp
    show ?thesis
    proof (cases "col' = col")
      case True
      with p Some x perform_counter [of col c s] have c1: "currentId col s1 = currentId col s + 1"
        by simp
      have "idsOf col (x # rs) = i # idsOf col rs" using x True by (simp add: idsOf_def)
      also have "\<dots> = currentId col s # [currentId col s + 1 .. currentId col s + 1 + int (length (idsOf col rs)) - 1]"
        using ih c1 i True by simp
      also have "\<dots> = [currentId col s .. currentId col s + (int (length (idsOf col rs)) + 1) - 1]"
        by (rule upto_from) simp
      finally have "idsOf col (x # rs) = [currentId col s .. currentId col s + int (length (idsOf col (x # rs))) - 1]"
        using x True by (simp add: idsOf_def)
      moreover have "currentId col s2 = currentId col s + int (length (idsOf col (x # rs)))"
        using ih2 c1 x True by (simp add: idsOf_def)
      ultimately show ?thesis using p q Some by simp
    next
      case False
      with p Some x perform_counter [of col c s] have c1: "currentId col s1 = currentId col s"
        by simp
      have "idsOf col (x # rs) = idsOf col rs" using x False by (simp add: idsOf_def)
      with c1 ih ih2 p q Some show ?thesis by simp
    qed
  qed
qed

lemma currentId_reset: "currentId col (clearAndReset s0) = 1"
  by (cases col) (simp_all add: currentId_def clearAndReset_def)

text \<open>
  C6. After the reset, whatever sequence of creates and updates on the five collections
  is run, the ids that the creates on one collection return are 1, 2, 3, ... in call
  order, however the calls on the other collections are interleaved: they increase
  strictly and none is returned twice.
\<close>

theorem ids_count_up_from_one:
  "idsOf col (fst (run cs (clearAndReset s0)))
     = [1 .. int (length (idsOf col (fst (run cs (clearAndReset s0)))))]
   \<and> sorted_wrt (<) (idsOf col (fst (run cs (clearAndReset s0))))
   \<and> distinct (idsOf col (fst (run cs (clearAndReset s0))))"
proof -
  let ?ids = "idsOf col (fst (run cs (clearAndReset s0)))"
  from run_ids [of col cs "clearAndReset s0"]
  have e: "?ids = [1 .. int (length ?ids)]" by (simp add: currentId_reset)
  have "sorted_wrt (<) [1 .. int (length ?ids)]" by (rule sorted_wrt_upto)
  moreover have "distinct [1 .. int (length ?ids)]" by (rule distinct_upto)
  ultimately show ?thesis using e by metis
qed

section \<open>Ids and keys\<close>

lemma list_all_Map_set:
  "list_all (\<lambda>(k, e). f e = k) m \<Longrightarrow> f v = k \<Longrightarrow> list_all (\<lambda>(k, e). f e = k) (Map_set k v m)"
  by (induction m) auto

lemma Map_get_key:
  "Map_get i m = Some e \<Longrightarrow> list_all (\<lambda>(k, e). f e = k) m \<Longrightarrow> f e = i"
  by (induction m) (auto split: if_splits)

lemma perform_idsMatchKeys: "idsMatchKeys s \<Longrightarrow> idsMatchKeys (snd (perform c s))"
  by (cases c)
     (auto simp: idsMatchKeys_def create_defs update_defs Let_def list_all_Map_set
        dest: Map_get_key split: option.splits)

lemma run_idsMatchKeys: "idsMatchKeys s \<Longrightarrow> idsMatchKeys (snd (run cs s))"
proof (induction cs arbitrary: s)
  case Nil
  then show ?case by simp
next
  case (Cons c cs)
  from Cons.prems have "idsMatchKeys (snd (perform c s))" by (rule perform_idsMatchKeys)
  then have "idsMatchKeys (snd (run cs (snd (perform c s))))" by (rule Cons.IH)
  then show ?case by (simp add: split_beta)
qed

lemma idsMatchKeys_reset: "idsMatchKeys (clearAndReset s0)"
  by (simp add: idsMatchKeys_def clearAndReset_def)

lemma updateTechnology_id:
  "getTechnology i s = Some e \<Longrightarrow> map_option tech_id (fst (updateTechnology i u s)) = Some (tech_id e)"
  by (simp add: getTechnology_def updateTechnology_def Let_def)

lemma updateQuadrant_id:
  "getQuadrant i s = Some e \<Longrightarrow> map_option quad_id (fst (updateQuadrant i u s)) = Some (quad_id e)"
  by (simp add: getQuadrant_def updateQuadrant_def Let_def)

lemma updateRing_id:
  "getRing i s = Some e \<Longrightarrow> map_option ring_id (fst (updateRing i u s)) = Some (ring_id e)"
  by (simp add: getRing_def updateRing_def Let_def)

lemma updateProject_id:
  "getProject i s = Some e \<Longrightarrow> map_option proj_id (fst (updateProject i u s)) = Some (proj_id e)"
  by (simp add: getProject_def updateProject_def Let_def)

lemma updateTechnologyProject_id:
  "getTechnologyProject i s = Some e \<Longrightarrow>
   map_option link_id (fst (updateTechnologyProject i u s)) = Some (link_id e)"
  by (simp add: getTechnologyProject_def updateTechnologyProject_def Let_def)

text \<open>
  C9. After the reset and any sequence of creates and updates on the five collections,
  every stored entity's id is the key under which it is stored; and an update on an id
  that the collection holds returns an entity with the existing entity's id.
\<close>

theorem ids_match_keys:
  "idsMatchKeys (snd (run cs (clearAndReset s0)))
   \<and> (getTechnology i s = Some et \<longrightarrow>
        map_option tech_id (fst (updateTechnology i ut s)) = Some (tech_id et))
   \<and> (getQuadrant i s = Some eq \<longrightarrow>
        map_option quad_id (fst (updateQuadrant i uq s)) = Some (quad_id eq))
   \<and> (getRing i s = Some er \<longrightarrow>
        map_option ring_id (fst (updateRing i ur s)) = Some (ring_id er))
   \<and> (getProject i s = Some ep \<longrightarrow>
        map_option proj_id (fst (updateProject i up s)) = Some (proj_id ep))
   \<and> (getTechnologyProject i s = Some el \<longrightarrow>
        map_option link_id (fst (updateTechnologyProject i ul s)) = Some (link_id el))"
  using run_idsMatchKeys [OF idsMatchKeys_reset, of cs s0]
    updateTechnology_id [of i s et ut] updateQuadrant_id [of i s eq uq]
    updateRing_id [of i s er ur] updateProject_id [of i s ep up]
    updateTechnologyProject_id [of i s el ul]
  by blast

text \<open>The sample calls leave two technologies under the keys 1 and 2, each with its key as id.\<close>

theorem ids_match_keys_witness:
  "getTechnology 1 sampleStorage \<noteq> None \<and> getQuadrant 1 sampleStorage \<noteq> None
   \<and> getRing 1 sampleStorage \<noteq> None \<and> getProject 1 sampleStorage \<noteq> None
   \<and> getTechnologyProject 1 sampleStorage \<noteq> None
   \<and> idsMatchKeys (snd (run sampleCalls (clearAndReset blankStorage)))
   \<and> map (\<lambda>(k, e). (k, tech_id e, tech_name e))
        (technologies (snd (run sampleCalls (clearAndReset blankStorage))))
      = [(1, 1, ''Moby''), (2, 2, ''Docker Compose'')]
   \<and> map_option tech_id (fst (updateTechnology 1 (noTechnologyUpdate\<lparr>upd_tech_name := Some ''K8s''\<rparr>)
        sampleStorage)) = Some 1
   \<and> map_option quad_id (fst (updateQuadrant 1 (noQuadrantUpdate\<lparr>upd_quad_color := Some None\<rparr>)
        sampleStorage)) = Some 1
   \<and> map_option ring_id (fst (updateRing 1 (noRingUpdate\<lparr>upd_ring_name := Some ''Use''\<rparr>)
        sampleStorage)) = Some 1
   \<and> map_option proj_id (fst (updateProject 1 (noProjectUpdate\<lparr>upd_proj_status := Some ''done''\<rparr>)
        sampleStorage)) = Some 1
   \<and> map_option link_id (fst (updateTechnologyProject 1
        (noTechnologyProjectUpdate\<lparr>upd_link_project_id := Some 1\<rparr>) sampleStorage)) = Some 1"
proof -
  from sample_first(1) obtain et where et: "getTechnology 1 sampleStorage = Some et"
    "tech_id et = 1" by blast
  from sample_first(2) obtain eq where eq: "getQuadrant 1 sampleStorage = Some eq"
    "quad_id eq = 1" by blast
  from sample_first(3) obtain er where er: "getRing 1 sampleStorage = Some er"
    "ring_id er = 1" by blast
  from sample_first(4) obtain ep where ep: "getProject 1 sampleStorage = Some ep"
    "proj_id ep = 1" by blast
  from sample_first(5) obtain el where el: "getTechnologyProject 1 sampleStorage = Some el"
    "link_id el = 1" by blast
  note m = ids_match_keys [of sampleCalls blankStorage 1 sampleStorage et
      "noTechnologyUpdate\<lparr>upd_tech_name := Some ''K8s''\<rparr>" eq
      "noQuadrantUpdate\<lparr>upd_quad_color := Some None\<rparr>" er
      "noRingUpdate\<lparr>upd_ring_name := Some ''Use''\<rparr>" ep
      "noProjectUpdate\<lparr>upd_proj_status := Some ''done''\<rparr>" el
      "noTechnologyProjectUpdate\<lparr>upd_link_project_id := Some 1\<rparr>"]
  from m et eq er ep el sampleCalls_run(2) show ?thesis by simp
qed

end
